theory Spec2Isabelle
  imports Complex_Main
begin

section \<open>The StrokeCharts component\<close>

text \<open>
  A shallow embedding of \<^verbatim>\<open>src/frontend/StrokeCharts.vue\<close>: the component state
  (\<^verbatim>\<open>data\<close>, \<^verbatim>\<open>loading\<close>, \<^verbatim>\<open>charts\<close>), its methods \<^verbatim>\<open>fetchData\<close>,
  \<^verbatim>\<open>renderCharts\<close> and \<^verbatim>\<open>updateChart\<close>, the \<^verbatim>\<open>created\<close> hook, the computed
  \<^verbatim>\<open>debouncedFetchData\<close> and the summary paragraph of the template.

  Conventions of the model.
  \<^item> Objects handed to the charting library are values of the type \<open>js\<close>; an object
    literal is the list of its properties in the order the source writes them.
  \<^item> \<^verbatim>\<open>this.charts\<close> and \<^verbatim>\<open>this.$refs\<close> are maps from property names to values; a
    missing property reads as \<^verbatim>\<open>undefined\<close>, which is \<open>None\<close>. Chart objects and
    elements are objects, hence truthy, so \<^verbatim>\<open>!chart\<close> and \<^verbatim>\<open>!this.$refs[title]\<close> are
    the tests for \<open>None\<close>. Slot ids are taken to be ordinary property names (none of
    the names every JavaScript object inherits, such as \<^verbatim>\<open>constructor\<close>).
  \<^item> A Chart object is only ever reachable through \<^verbatim>\<open>this.charts[title]\<close>, so the
    map holds the object itself; its identity is the field \<open>uid\<close>, the number of
    Chart objects constructed before it.
  \<^item> The calls into the collaborators (\<^verbatim>\<open>utils.request.get\<close>,
    \<^verbatim>\<open>utils.handleRequestError\<close>, \<^verbatim>\<open>new Chart\<close>, \<^verbatim>\<open>chart.update\<close>, the function made
    by lodash's \<^verbatim>\<open>debounce\<close>) are recorded in the field \<open>trace\<close>, in the order they
    happen; they are taken to return normally. The entry of \<^verbatim>\<open>renderCharts\<close> is
    recorded too.
  \<^item> The numbers of a snapshot are taken to be integers; the component does no
    arithmetic on them.
\<close>

subsection \<open>Values\<close>

datatype callback =
  Tooltip_label  \<comment> \<open>\<^verbatim>\<open>(tooltipItem) => `${tooltipItem.yLabel}%`\<close>\<close>

datatype js =
    JNum rat
  | JStr string
  | JBool bool
  | JArr "js list"
  | JObj "(string \<times> js) list"
  | JFun callback

text \<open>The three fields of the interface \<^verbatim>\<open>ChartData\<close> that the component reads.\<close>

record ChartData =
  months :: "string list"
  stroke_unit_access :: "int list"
  stroke_unit_access_percentage :: int

type_synonym element = nat

text \<open>
  A Chart object: \<open>item\<close> and \<open>config_type\<close> are the arguments of
  \<^verbatim>\<open>new Chart(item, { type: chartType })\<close>; \<open>chart_data\<close> and \<open>chart_options\<close> are
  its properties \<^verbatim>\<open>data\<close> and \<^verbatim>\<open>options\<close>, \<open>None\<close> until the component assigns them.
\<close>

record Chart =
  uid :: nat
  item :: element
  config_type :: string
  chart_data :: "js option"
  chart_options :: "js option"

datatype event =
    Request_get string "string list"
  | Handle_request_error string
  | Render_charts_called
  | New_Chart string element string
  | Chart_update Chart
  | Debounced_called

text \<open>
  The component instance. \<open>hospitals\<close> is \<^verbatim>\<open>this.hospitals\<close>, which the component
  reads and never writes. \<open>constructed\<close> counts the Chart objects constructed so far.
\<close>

record component =
  data :: "ChartData option"
  loading :: bool
  charts :: "string \<rightharpoonup> Chart"
  hospitals :: "string list"
  constructed :: nat
  trace :: "event list"

text \<open>The argument of \<^verbatim>\<open>updateChart\<close>.\<close>

record descriptor =
  title :: string
  desc_data :: js
  desc_options :: js
  chartType :: string

type_synonym refs = "string \<rightharpoonup> element"

text \<open>The outcome of the request: \<open>Inl\<close> the error, \<open>Inr\<close> the body of the response.\<close>

type_synonym response = "string + ChartData option"

subsection \<open>The component's \<^verbatim>\<open>data()\<close>\<close>

definition initial :: "string list \<Rightarrow> component" where
  "initial hs =
     \<lparr>data = None, loading = False, charts = Map.empty, hospitals = hs,
      constructed = 0, trace = []\<rparr>"

subsection \<open>\<^verbatim>\<open>updateChart\<close>\<close>

definition new_Chart :: "nat \<Rightarrow> element \<Rightarrow> string \<Rightarrow> Chart" where
  "new_Chart n el ty =
     \<lparr>uid = n, item = el, config_type = ty, chart_data = None, chart_options = None\<rparr>"

text \<open>
  The last three lines of \<^verbatim>\<open>updateChart\<close>: \<^verbatim>\<open>chart.data = data\<close>,
  \<^verbatim>\<open>chart.options = options\<close>, \<^verbatim>\<open>chart.update()\<close>. The event carries the object as
  \<^verbatim>\<open>update\<close> finds it.
\<close>

definition assign_and_update :: "descriptor \<Rightarrow> Chart \<Rightarrow> component \<Rightarrow> component" where
  "assign_and_update d c s =
     (let c' = c\<lparr>chart_data := Some (desc_data d), chart_options := Some (desc_options d)\<rparr>
      in s\<lparr>charts := (charts s)(title d \<mapsto> c'), trace := trace s @ [Chart_update c']\<rparr>)"

definition updateChart :: "refs \<Rightarrow> descriptor \<Rightarrow> component \<Rightarrow> component" where
  "updateChart rs d s =
     (case charts s (title d) of
        None \<Rightarrow>
          (case rs (title d) of
             None \<Rightarrow> s
           | Some el \<Rightarrow>
               let c = new_Chart (constructed s) el (chartType d);
                   s' = s\<lparr>charts := (charts s)(title d \<mapsto> c),
                          constructed := Suc (constructed s),
                          trace := trace s @ [New_Chart (title d) el (chartType d)]\<rparr>
               in assign_and_update d c s')
      | Some c \<Rightarrow> assign_and_update d c s)"

subsection \<open>\<^verbatim>\<open>renderCharts\<close>\<close>

text \<open>
  Of the object literals that \<^verbatim>\<open>renderCharts\<close> builds, only \<^verbatim>\<open>fontStyling\<close>,
  \<^verbatim>\<open>lineStyles\<close> and \<^verbatim>\<open>percentageLineOptions\<close> reach \<^verbatim>\<open>updateChart\<close>; the others
  (\<^verbatim>\<open>barStyling\<close>, \<^verbatim>\<open>legendSettings\<close>, \<^verbatim>\<open>yTicks\<close>, \<^verbatim>\<open>yAxes\<close>, \<^verbatim>\<open>xAxes\<close>,
  \<^verbatim>\<open>options\<close>) are never used. A spread \<^verbatim>\<open>...x\<close> appends the properties of \<open>x\<close>; no
  literal here repeats a property name. \<^verbatim>\<open>this.charts\<close> is always an object, so the
  guard \<^verbatim>\<open>if (!this.charts) return\<close> never returns.
\<close>

definition fontStyling :: "(string \<times> js) list" where
  "fontStyling = [(''fontColor'', JStr ''white''), (''fontSize'', JNum 14)]"

definition lineStyles :: "(string \<times> js) list" where
  "lineStyles =
     [(''borderColor'', JStr ''#4472c4''), (''backgroundColor'', JStr ''#a5a5a5''),
      (''lineTension'', JNum (1 / 10)), (''fill'', JBool False)]"

definition percentageLineOptions :: js where
  "percentageLineOptions =
     JObj
      [(''legend'', JObj [(''display'', JBool False)]),
       (''scales'', JObj
          [(''xAxes'', JArr [JObj [(''ticks'', JObj fontStyling)]]),
           (''yAxes'', JArr
              [JObj
                [(''scaleLabel'',
                    JObj ([(''display'', JBool True), (''labelString'', JStr ''%'')] @ fontStyling)),
                 (''ticks'', JObj ([(''min'', JNum 0), (''max'', JNum 100)] @ fontStyling))]])]),
       (''tooltips'', JObj [(''callbacks'', JObj [(''label'', JFun Tooltip_label)])])]"

definition strokeUnitAccessChart :: "ChartData \<Rightarrow> descriptor" where
  "strokeUnitAccessChart d =
     \<lparr>title = ''strokeUnitAccessChart'',
      desc_data = JObj
        [(''labels'', JArr (map JStr (months d))),
         (''datasets'', JArr
            [JObj ([(''label'', JStr ''Percentage''),
                    (''data'', JArr (map (\<lambda>n. JNum (of_int n)) (stroke_unit_access d)))]
                   @ lineStyles)])],
      desc_options = percentageLineOptions,
      chartType = ''line''\<rparr>"

definition renderCharts :: "refs \<Rightarrow> component \<Rightarrow> component" where
  "renderCharts rs s =
     (let s1 = s\<lparr>trace := trace s @ [Render_charts_called]\<rparr>
      in case data s of
           None \<Rightarrow> s1
         | Some d \<Rightarrow> updateChart rs (strokeUnitAccessChart d) s1)"

subsection \<open>\<^verbatim>\<open>fetchData\<close>, \<^verbatim>\<open>created\<close> and \<^verbatim>\<open>debouncedFetchData\<close>\<close>

text \<open>
  \<^verbatim>\<open>fetchData\<close> runs in two parts: the synchronous part sets the flag and sends the
  request; when the promise settles, the \<^verbatim>\<open>then\<close> callback or the \<^verbatim>\<open>catch\<close> callback
  runs, with the \<^verbatim>\<open>$refs\<close> of that moment.
\<close>

definition fetchData_start :: "component \<Rightarrow> component" where
  "fetchData_start s =
     s\<lparr>loading := True, trace := trace s @ [Request_get ''/stroke-chart-data/'' (hospitals s)]\<rparr>"

definition fetchData_settle :: "refs \<Rightarrow> response \<Rightarrow> component \<Rightarrow> component" where
  "fetchData_settle rs r s =
     (case r of
        Inr body \<Rightarrow> renderCharts rs (s\<lparr>data := body, loading := False\<rparr>)
      | Inl err \<Rightarrow> s\<lparr>trace := trace s @ [Handle_request_error err]\<rparr>)"

definition fetchData :: "refs \<Rightarrow> response \<Rightarrow> component \<Rightarrow> component" where
  "fetchData rs r s = fetchData_settle rs r (fetchData_start s)"

definition created :: "component \<Rightarrow> component" where
  "created s = fetchData_start s"

text \<open>
  A call of the function that \<^verbatim>\<open>debounce(this.fetchData, 1000, {leading: true})\<close>
  returns. Whether this call runs the wrapped function is lodash's decision, made from
  its timers; it is the parameter \<open>fire\<close>.
\<close>

definition debouncedFetchData :: "bool \<Rightarrow> component \<Rightarrow> component" where
  "debouncedFetchData fire s =
     (let s1 = s\<lparr>trace := trace s @ [Debounced_called]\<rparr>
      in if fire then fetchData_start s1 else s1)"

subsection \<open>The template's summary paragraph\<close>

definition digit :: "nat \<Rightarrow> char" where
  "digit n = ''0123456789'' ! (n mod 10)"

fun decimal :: "nat \<Rightarrow> string" where
  "decimal n = (if n < 10 then [digit n] else decimal (n div 10) @ [digit n])"

declare decimal.simps [simp del]

definition toString :: "int \<Rightarrow> string" where
  "toString i = (if i < 0 then ''-'' @ decimal (nat (- i)) else decimal (nat i))"

text \<open>
  \<^verbatim>\<open><p v-if="data">Year to date: {{ data.stroke_unit_access_percentage }}%</p>\<close>:
  the text of the paragraph, the white space around it apart; \<open>None\<close> when the
  paragraph is not rendered. \<open>toString\<close> is the text JavaScript gives an integer, as
  long as its magnitude stays below \<open>10\<^sup>2\<^sup>1\<close>, where the exponent notation
  begins.
\<close>

definition year_to_date :: "component \<Rightarrow> string option" where
  "year_to_date s =
     (case data s of
        None \<Rightarrow> None
      | Some d \<Rightarrow> Some (''Year to date: '' @ toString (stroke_unit_access_percentage d) @ ''%''))"

subsection \<open>Sequences of calls\<close>

datatype call =
    Call_updateChart refs descriptor
  | Call_renderCharts refs
  | Call_fetchData_start
  | Call_fetchData_settle refs response
  | Call_created
  | Call_debouncedFetchData bool

fun step :: "component \<Rightarrow> call \<Rightarrow> component" where
  "step s (Call_updateChart rs d) = updateChart rs d s"
| "step s (Call_renderCharts rs) = renderCharts rs s"
| "step s Call_fetchData_start = fetchData_start s"
| "step s (Call_fetchData_settle rs r) = fetchData_settle rs r s"
| "step s Call_created = created s"
| "step s (Call_debouncedFetchData fire) = debouncedFetchData fire s"

definition run :: "call list \<Rightarrow> component \<Rightarrow> component" where
  "run cs s = foldl step s cs"

text \<open>How many Chart objects the trace shows constructed for the slot \<open>t\<close>.\<close>

fun constructs :: "string \<Rightarrow> event \<Rightarrow> bool" where
  "constructs t (New_Chart t' el ty) = (t' = t)"
| "constructs t _ = False"

definition constructions :: "string \<Rightarrow> event list \<Rightarrow> nat" where
  "constructions t es = length (filter (constructs t) es)"

text \<open>A series of calls of \<^verbatim>\<open>updateChart\<close>, each with the \<^verbatim>\<open>$refs\<close> of its moment.\<close>

definition updateCharts :: "(refs \<times> descriptor) list \<Rightarrow> component \<Rightarrow> component" where
  "updateCharts xs s = foldl (\<lambda>s x. updateChart (fst x) (snd x) s) s xs"

text \<open>Two snapshots of the same Chart object: same identity, canvas and kind.\<close>

definition same_chart :: "Chart \<Rightarrow> Chart \<Rightarrow> bool" where
  "same_chart c c' = (uid c' = uid c \<and> item c' = item c \<and> config_type c' = config_type c)"

subsection \<open>Example inputs\<close>

definition snapshot_1 :: ChartData where
  "snapshot_1 =
     \<lparr>months = [''Jan'', ''Feb''], stroke_unit_access = [80, 90],
      stroke_unit_access_percentage = 85\<rparr>"

definition snapshot_2 :: ChartData where
  "snapshot_2 =
     \<lparr>months = [''Mar''], stroke_unit_access = [70], stroke_unit_access_percentage = 70\<rparr>"

definition canvas_present :: refs where
  "canvas_present = [''strokeUnitAccessChart'' \<mapsto> 0]"

definition canvas_absent :: refs where
  "canvas_absent = Map.empty"

definition bar_descriptor :: descriptor where
  "bar_descriptor =
     \<lparr>title = ''strokeUnitAccessChart'', desc_data = JObj [], desc_options = JObj [],
      chartType = ''bar''\<rparr>"

text \<open>The component after its first successful fetch, the canvas being there.\<close>

definition loaded :: component where
  "loaded = fetchData canvas_present (Inr (Some snapshot_1)) (initial [])"

section \<open>Properties\<close>

subsection \<open>The loading flag\<close>

lemma updateChart_loading: "loading (updateChart rs d s) = loading s"
  by (simp add: updateChart_def assign_and_update_def Let_def split: option.splits)

lemma renderCharts_loading: "loading (renderCharts rs s) = loading s"
  by (simp add: renderCharts_def updateChart_loading Let_def split: option.splits)

lemma loading_cleared:
  assumes "loading s" and "\<not> loading (step s x)"
  shows "\<exists>rs body. x = Call_fetchData_settle rs (Inr body)"
proof (cases x)
  case (Call_updateChart rs d)
  with assms show ?thesis by (simp add: updateChart_loading)
next
  case (Call_renderCharts rs)
  with assms show ?thesis by (simp add: renderCharts_loading)
next
  case Call_fetchData_start
  with assms show ?thesis by (simp add: fetchData_start_def)
next
  case (Call_fetchData_settle rs r)
  with assms show ?thesis by (cases r) (simp_all add: fetchData_settle_def)
next
  case Call_created
  with assms show ?thesis by (simp add: created_def fetchData_start_def)
next
  case (Call_debouncedFetchData fire)
  with assms show ?thesis
    by (simp add: debouncedFetchData_def fetchData_start_def Let_def split: if_splits)
qed

text \<open>
  C10. \<^verbatim>\<open>fetchData\<close> sets \<open>loading\<close> when it starts; the success branch clears it;
  the failure branch leaves it as it is, so after a failed fetch the flag is still set,
  whatever it was before. No other method of the component clears the flag: a call that
  finds it set and leaves it cleared is the success branch of \<^verbatim>\<open>fetchData\<close>.
\<close>

theorem loading_after_fetch:
  "loading (fetchData_start s)
   \<and> loading (fetchData_settle rs (Inl err) s) = loading s
   \<and> \<not> loading (fetchData_settle rs (Inr body) s)
   \<and> loading (fetchData rs (Inl err) s)
   \<and> \<not> loading (fetchData rs (Inr body) s)
   \<and> (loading s' \<and> \<not> loading (step s' x) \<longrightarrow> (\<exists>rs' body'. x = Call_fetchData_settle rs' (Inr body')))"
  using loading_cleared [of s' x]
  by (simp add: fetchData_def fetchData_settle_def fetchData_start_def renderCharts_loading)

theorem loading_after_fetch_witness:
  "loading (created (initial []))
   \<and> \<not> loading (step (created (initial []))
          (Call_fetchData_settle canvas_present (Inr (Some snapshot_1))))
   \<and> (\<exists>rs' body'. Call_fetchData_settle canvas_present (Inr (Some snapshot_1)) =
          Call_fetchData_settle rs' (Inr body'))
   \<and> loading (fetchData canvas_present (Inl ''timeout'') (initial []))"
proof -
  let ?x = "Call_fetchData_settle canvas_present (Inr (Some snapshot_1))"
  have a: "loading (created (initial []))"
    by (simp add: created_def fetchData_start_def)
  have b: "\<not> loading (step (created (initial [])) ?x)"
    by (simp add: fetchData_settle_def renderCharts_loading)
  from loading_after_fetch [of "initial []" canvas_present "''timeout''" None
      "created (initial [])" ?x]
  have c: "loading (fetchData canvas_present (Inl ''timeout'') (initial []))" and
    d: "loading (created (initial [])) \<and> \<not> loading (step (created (initial [])) ?x) \<longrightarrow>
      (\<exists>rs' body'. ?x = Call_fetchData_settle rs' (Inr body'))"
    by blast+
  from a b d have "\<exists>rs' body'. ?x = Call_fetchData_settle rs' (Inr body')"
    by blast
  with a b c show ?thesis by blast
qed

subsection \<open>A failed fetch\<close>

text \<open>
  C4. When the request fails, \<^verbatim>\<open>fetchData\<close> sends one request and hands the error to
  \<^verbatim>\<open>utils.handleRequestError\<close>, and does nothing else: no second request, no call of
  \<^verbatim>\<open>renderCharts\<close>, no chart constructed or updated; \<open>data\<close> and \<open>charts\<close> are what
  they were.
\<close>

theorem fetch_failure_preserves:
  "data (fetchData rs (Inl err) s) = data s
   \<and> charts (fetchData rs (Inl err) s) = charts s
   \<and> constructed (fetchData rs (Inl err) s) = constructed s
   \<and> trace (fetchData rs (Inl err) s) =
       trace s @ [Request_get ''/stroke-chart-data/'' (hospitals s), Handle_request_error err]"
  by (simp add: fetchData_def fetchData_settle_def fetchData_start_def)


subsection \<open>What one call of \<^verbatim>\<open>updateChart\<close> does\<close>

lemma updateChart_skip:
  "charts s (title d) = None \<Longrightarrow> rs (title d) = None \<Longrightarrow> updateChart rs d s = s"
  by (simp add: updateChart_def)

lemma updateChart_create:
  "charts s (title d) = None \<Longrightarrow> rs (title d) = Some el \<Longrightarrow>
   updateChart rs d s =
     s\<lparr>charts := (charts s)(title d \<mapsto>
           \<lparr>uid = constructed s, item = el, config_type = chartType d,
            chart_data = Some (desc_data d), chart_options = Some (desc_options d)\<rparr>),
       constructed := Suc (constructed s),
       trace := trace s @
         [New_Chart (title d) el (chartType d),
          Chart_update \<lparr>uid = constructed s, item = el, config_type = chartType d,
            chart_data = Some (desc_data d), chart_options = Some (desc_options d)\<rparr>]\<rparr>"
  by (simp add: updateChart_def assign_and_update_def new_Chart_def Let_def)

lemma updateChart_reuse:
  "charts s (title d) = Some c \<Longrightarrow>
   updateChart rs d s =
     s\<lparr>charts := (charts s)(title d \<mapsto>
           c\<lparr>chart_data := Some (desc_data d), chart_options := Some (desc_options d)\<rparr>),
       trace := trace s @
         [Chart_update (c\<lparr>chart_data := Some (desc_data d),
                          chart_options := Some (desc_options d)\<rparr>)]\<rparr>"
  by (simp add: updateChart_def assign_and_update_def Let_def)

lemma updateChart_cases:
  obtains (skip) "charts s (title d) = None" "rs (title d) = None"
  | (create) el where "charts s (title d) = None" "rs (title d) = Some el"
  | (reuse) c where "charts s (title d) = Some c"
  by (cases "charts s (title d)"; cases "rs (title d)") auto


subsection \<open>The example, evaluated\<close>

lemma charts_loaded:
  "charts loaded =
     [''strokeUnitAccessChart'' \<mapsto>
        \<lparr>uid = 0, item = 0, config_type = ''line'',
         chart_data = Some (desc_data (strokeUnitAccessChart snapshot_1)),
         chart_options = Some percentageLineOptions\<rparr>]"
  by (simp add: loaded_def fetchData_def fetchData_settle_def fetchData_start_def
      renderCharts_def updateChart_def assign_and_update_def new_Chart_def Let_def
      initial_def canvas_present_def strokeUnitAccessChart_def)

subsection \<open>A slot whose container is absent\<close>

text \<open>
  C1, as stated, fails: \<^verbatim>\<open>updateChart\<close> looks at \<^verbatim>\<open>this.$refs\<close> only when the
  registry has no entry for the slot. Once a chart is registered, a call made while the
  canvas is absent still replaces the chart's data and options.
\<close>

theorem absent_container_counterexample:
  "canvas_absent ''strokeUnitAccessChart'' = None
   \<and> charts (updateChart canvas_absent (strokeUnitAccessChart snapshot_2) loaded)
        ''strokeUnitAccessChart''
      \<noteq> charts loaded ''strokeUnitAccessChart''"
  by (simp add: charts_loaded updateChart_def assign_and_update_def Let_def
      canvas_absent_def strokeUnitAccessChart_def snapshot_1_def snapshot_2_def)

text \<open>
  C1, amended. If the container of a slot is absent and the registry has no entry for
  the slot, \<^verbatim>\<open>updateChart\<close> changes nothing at all: no entry is added, no chart is
  constructed or updated.
\<close>

theorem absent_container_noop:
  assumes "rs (title d) = None" and "charts s (title d) = None"
  shows "updateChart rs d s = s"
  using assms by (simp add: updateChart_def)

theorem absent_container_noop_witness:
  "canvas_absent (title (strokeUnitAccessChart snapshot_1)) = None
   \<and> charts (initial []) (title (strokeUnitAccessChart snapshot_1)) = None
   \<and> updateChart canvas_absent (strokeUnitAccessChart snapshot_1) (initial []) = initial []"
proof -
  have a: "canvas_absent (title (strokeUnitAccessChart snapshot_1)) = None"
    by (simp add: canvas_absent_def)
  have b: "charts (initial []) (title (strokeUnitAccessChart snapshot_1)) = None"
    by (simp add: initial_def)
  from absent_container_noop
      [of canvas_absent "strokeUnitAccessChart snapshot_1" "initial []"] a b
  show ?thesis by simp
qed

subsection \<open>Assignment and update\<close>

text \<open>
  C8. Whenever \<^verbatim>\<open>updateChart\<close> gets past its checks (the slot is registered, or its
  container is present), the chart registered for the slot afterwards has exactly the
  descriptor's data and options, and the last thing the call does is \<^verbatim>\<open>update()\<close> on
  that chart, which then holds the new data and options.
\<close>

theorem assign_then_update:
  assumes "charts s (title d) \<noteq> None \<or> rs (title d) \<noteq> None"
  shows "\<exists>c. charts (updateChart rs d s) (title d) = Some c
           \<and> chart_data c = Some (desc_data d)
           \<and> chart_options c = Some (desc_options d)
           \<and> trace (updateChart rs d s) \<noteq> []
           \<and> last (trace (updateChart rs d s)) = Chart_update c"
proof (cases rule: updateChart_cases [of s d rs])
  case skip
  with assms show ?thesis by simp
next
  case (create el)
  then show ?thesis by (simp add: updateChart_create)
next
  case (reuse c)
  then show ?thesis by (simp add: updateChart_reuse)
qed

theorem assign_then_update_witness:
  "charts loaded (title bar_descriptor) \<noteq> None
   \<and> (\<exists>c. charts (updateChart canvas_absent bar_descriptor loaded) (title bar_descriptor) = Some c
         \<and> chart_data c = Some (JObj [])
         \<and> chart_options c = Some (JObj [])
         \<and> last (trace (updateChart canvas_absent bar_descriptor loaded)) = Chart_update c)"
proof -
  have a: "charts loaded (title bar_descriptor) \<noteq> None"
    by (simp add: charts_loaded bar_descriptor_def)
  have d: "desc_data bar_descriptor = JObj []" "desc_options bar_descriptor = JObj []"
    by (simp_all add: bar_descriptor_def)
  from a have "charts loaded (title bar_descriptor) \<noteq> None
      \<or> canvas_absent (title bar_descriptor) \<noteq> None"
    by simp
  with assign_then_update [of loaded bar_descriptor canvas_absent]
  obtain c where
    "charts (updateChart canvas_absent bar_descriptor loaded) (title bar_descriptor) = Some c"
    "chart_data c = Some (desc_data bar_descriptor)"
    "chart_options c = Some (desc_options bar_descriptor)"
    "last (trace (updateChart canvas_absent bar_descriptor loaded)) = Chart_update c"
    by blast
  with a d show ?thesis by auto
qed


subsection \<open>The kind of a chart\<close>

lemma updateChart_keeps:
  assumes "charts s t = Some c"
  shows "\<exists>c'. charts (updateChart rs d s) t = Some c' \<and> same_chart c c'"
proof (cases rule: updateChart_cases [of s d rs])
  case skip
  with assms show ?thesis by (simp add: updateChart_skip same_chart_def)
next
  case (create el)
  with assms have "t \<noteq> title d" by auto
  with assms create show ?thesis by (simp add: updateChart_create same_chart_def)
next
  case (reuse c0)
  with assms show ?thesis by (auto simp: updateChart_reuse same_chart_def)
qed

lemma same_chart_refl: "same_chart c c"
  by (simp add: same_chart_def)

lemma renderCharts_keeps:
  assumes "charts s t = Some c"
  shows "\<exists>c'. charts (renderCharts rs s) t = Some c' \<and> same_chart c c'"
proof (cases "data s")
  case None
  with assms show ?thesis by (simp add: renderCharts_def same_chart_refl)
next
  case (Some d)
  from assms have "charts (s\<lparr>trace := trace s @ [Render_charts_called]\<rparr>) t = Some c"
    by simp
  from updateChart_keeps [OF this] Some show ?thesis
    by (simp add: renderCharts_def Let_def)
qed

lemma fetchData_settle_keeps:
  assumes "charts s t = Some c"
  shows "\<exists>c'. charts (fetchData_settle rs r s) t = Some c' \<and> same_chart c c'"
proof (cases r)
  case (Inl err)
  with assms show ?thesis by (simp add: fetchData_settle_def same_chart_refl)
next
  case (Inr body)
  from assms have "charts (s\<lparr>data := body, loading := False\<rparr>) t = Some c"
    by simp
  from renderCharts_keeps [OF this] Inr show ?thesis
    by (simp add: fetchData_settle_def)
qed

lemma step_keeps:
  assumes "charts s t = Some c"
  shows "\<exists>c'. charts (step s x) t = Some c' \<and> same_chart c c'"
proof (cases x)
  case (Call_updateChart rs d)
  with assms show ?thesis by (simp add: updateChart_keeps)
next
  case (Call_renderCharts rs)
  with assms show ?thesis by (simp add: renderCharts_keeps)
next
  case Call_fetchData_start
  with assms show ?thesis by (simp add: fetchData_start_def same_chart_refl)
next
  case (Call_fetchData_settle rs r)
  with assms show ?thesis by (simp add: fetchData_settle_keeps)
next
  case Call_created
  with assms show ?thesis by (simp add: created_def fetchData_start_def same_chart_refl)
next
  case (Call_debouncedFetchData fire)
  with assms show ?thesis
    by (simp add: debouncedFetchData_def fetchData_start_def Let_def same_chart_refl)
qed

lemma same_chart_trans: "same_chart a b \<Longrightarrow> same_chart b c \<Longrightarrow> same_chart a c"
  by (simp add: same_chart_def)

lemma run_keeps:
  "charts s t = Some c \<Longrightarrow> \<exists>c'. charts (run cs s) t = Some c' \<and> same_chart c c'"
proof (induction cs arbitrary: s c)
  case Nil
  then show ?case by (simp add: run_def same_chart_def)
next
  case (Cons x cs)
  from step_keeps [OF Cons.prems] obtain c1
    where c1: "charts (step s x) t = Some c1" "same_chart c c1" by blast
  from Cons.IH [OF c1(1)] obtain c'
    where "charts (run cs (step s x)) t = Some c'" "same_chart c1 c'" by blast
  with c1 show ?case by (auto simp: run_def intro: same_chart_trans)
qed

text \<open>
  C7. A registered chart keeps the kind it was constructed with. A call of
  \<^verbatim>\<open>updateChart\<close> for a registered slot stores the same object with new data and
  options and nothing else changed, whatever \<open>chartType\<close> the descriptor has; and after
  any sequence of calls of the component's methods the slot still holds the same object
  (same identity, same canvas) with the same kind.
\<close>

theorem chart_kind_fixed:
  assumes "charts s t = Some c"
  shows "(title d = t \<longrightarrow>
            charts (updateChart rs d s) t =
              Some (c\<lparr>chart_data := Some (desc_data d), chart_options := Some (desc_options d)\<rparr>)
            \<and> constructed (updateChart rs d s) = constructed s)
       \<and> (\<exists>c'. charts (run cs s) t = Some c' \<and> uid c' = uid c \<and> item c' = item c
             \<and> config_type c' = config_type c)"
proof -
  from run_keeps [OF assms, of cs] have "\<exists>c'. charts (run cs s) t = Some c' \<and> uid c' = uid c
      \<and> item c' = item c \<and> config_type c' = config_type c"
    by (simp add: same_chart_def)
  moreover have "title d = t \<longrightarrow>
      charts (updateChart rs d s) t =
        Some (c\<lparr>chart_data := Some (desc_data d), chart_options := Some (desc_options d)\<rparr>)
      \<and> constructed (updateChart rs d s) = constructed s"
    using assms by (auto simp: updateChart_reuse)
  ultimately show ?thesis by blast
qed

theorem chart_kind_fixed_witness:
  "charts loaded ''strokeUnitAccessChart''
     = Some \<lparr>uid = 0, item = 0, config_type = ''line'',
         chart_data = Some (desc_data (strokeUnitAccessChart snapshot_1)),
         chart_options = Some percentageLineOptions\<rparr>
   \<and> chartType bar_descriptor = ''bar''
   \<and> charts (updateChart canvas_present bar_descriptor loaded) ''strokeUnitAccessChart''
     = Some \<lparr>uid = 0, item = 0, config_type = ''line'',
         chart_data = Some (JObj []), chart_options = Some (JObj [])\<rparr>"
proof -
  have a: "charts loaded ''strokeUnitAccessChart''
     = Some \<lparr>uid = 0, item = 0, config_type = ''line'',
         chart_data = Some (desc_data (strokeUnitAccessChart snapshot_1)),
         chart_options = Some percentageLineOptions\<rparr>"
    by (simp add: charts_loaded)
  from chart_kind_fixed [OF a, of bar_descriptor canvas_present "[]"] a
  show ?thesis by (simp add: bar_descriptor_def)
qed


subsection \<open>One construction per slot\<close>

lemma constructions_append:
  "constructions t (es @ fs) = constructions t es + constructions t fs"
  by (simp add: constructions_def)

lemma constructions_single:
  "constructions t [e] = (if constructs t e then 1 else 0)"
  by (simp add: constructions_def)

lemma constructions_Nil: "constructions t [] = 0"
  by (simp add: constructions_def)

text \<open>
  The invariant, for one slot \<open>t\<close>: the trace shows one construction for \<open>t\<close> when
  \<open>t\<close> is registered, and none when it is not.
\<close>

lemma updateChart_count:
  assumes "constructions t (trace s) = (if charts s t = None then 0 else 1)"
  shows "constructions t (trace (updateChart rs d s)) =
           (if charts (updateChart rs d s) t = None then 0 else 1)"
proof (cases rule: updateChart_cases [of s d rs])
  case skip
  with assms show ?thesis by (simp add: updateChart_skip)
next
  case (create el)
  with assms show ?thesis
    by (auto simp: updateChart_create constructions_append constructions_def)
next
  case (reuse c)
  with assms show ?thesis
    by (auto simp: updateChart_reuse constructions_append constructions_def)
qed

lemma renderCharts_count:
  assumes "constructions t (trace s) = (if charts s t = None then 0 else 1)"
  shows "constructions t (trace (renderCharts rs s)) =
           (if charts (renderCharts rs s) t = None then 0 else 1)"
proof (cases "data s")
  case None
  with assms show ?thesis
    by (simp add: renderCharts_def constructions_append constructions_single)
next
  case (Some d)
  from assms have "constructions t (trace (s\<lparr>trace := trace s @ [Render_charts_called]\<rparr>)) =
      (if charts (s\<lparr>trace := trace s @ [Render_charts_called]\<rparr>) t = None then 0 else 1)"
    by (simp add: constructions_append constructions_single)
  from updateChart_count [OF this] Some show ?thesis
    by (simp add: renderCharts_def Let_def)
qed

lemma fetchData_settle_count:
  assumes "constructions t (trace s) = (if charts s t = None then 0 else 1)"
  shows "constructions t (trace (fetchData_settle rs r s)) =
           (if charts (fetchData_settle rs r s) t = None then 0 else 1)"
proof (cases r)
  case (Inl err)
  with assms show ?thesis
    by (simp add: fetchData_settle_def constructions_append constructions_single)
next
  case (Inr body)
  from assms have "constructions t (trace (s\<lparr>data := body, loading := False\<rparr>)) =
      (if charts (s\<lparr>data := body, loading := False\<rparr>) t = None then 0 else 1)"
    by simp
  from renderCharts_count [OF this] Inr show ?thesis
    by (simp add: fetchData_settle_def)
qed

lemma step_count:
  assumes "constructions t (trace s) = (if charts s t = None then 0 else 1)"
  shows "constructions t (trace (step s x)) = (if charts (step s x) t = None then 0 else 1)"
proof (cases x)
  case (Call_updateChart rs d)
  with assms show ?thesis by (simp add: updateChart_count)
next
  case (Call_renderCharts rs)
  with assms show ?thesis by (simp add: renderCharts_count)
next
  case Call_fetchData_start
  with assms show ?thesis
    by (simp add: fetchData_start_def constructions_append constructions_single)
next
  case (Call_fetchData_settle rs r)
  with assms show ?thesis by (simp add: fetchData_settle_count)
next
  case Call_created
  with assms show ?thesis
    by (simp add: created_def fetchData_start_def constructions_append constructions_single)
next
  case (Call_debouncedFetchData fire)
  with assms show ?thesis
    by (auto simp: debouncedFetchData_def fetchData_start_def Let_def constructions_def)
qed

lemma run_count:
  "constructions t (trace s) = (if charts s t = None then 0 else 1) \<Longrightarrow>
   constructions t (trace (run cs s)) = (if charts (run cs s) t = None then 0 else 1)"
proof (induction cs arbitrary: s)
  case Nil
  then show ?case by (simp add: run_def)
next
  case (Cons x cs)
  from Cons.IH [OF step_count [OF Cons.prems]] show ?case by (simp add: run_def)
qed

lemma reachable_count:
  "constructions t (trace (run cs (initial hs))) =
     (if charts (run cs (initial hs)) t = None then 0 else 1)"
  by (rule run_count) (simp add: initial_def constructions_Nil)

lemma updateCharts_count:
  "constructions t (trace s) = (if charts s t = None then 0 else 1) \<Longrightarrow>
   constructions t (trace (updateCharts xs s)) =
     (if charts (updateCharts xs s) t = None then 0 else 1)"
proof (induction xs arbitrary: s)
  case Nil
  then show ?case by (simp add: updateCharts_def)
next
  case (Cons x xs)
  from Cons.IH [OF updateChart_count [OF Cons.prems]] show ?case
    by (simp add: updateCharts_def)
qed

lemma updateCharts_keeps:
  "charts s t = Some c \<Longrightarrow> \<exists>c'. charts (updateCharts xs s) t = Some c' \<and> same_chart c c'"
proof (induction xs arbitrary: s c)
  case Nil
  then show ?case by (simp add: updateCharts_def same_chart_refl)
next
  case (Cons x xs)
  from updateChart_keeps [OF Cons.prems] obtain c1
    where c1: "charts (updateChart (fst x) (snd x) s) t = Some c1" "same_chart c c1" by blast
  from Cons.IH [OF c1(1)] obtain c'
    where "charts (updateCharts xs (updateChart (fst x) (snd x) s)) t = Some c'"
      "same_chart c1 c'" by blast
  with c1 show ?case by (auto simp: updateCharts_def intro: same_chart_trans)
qed

lemma updateChart_registers:
  "rs (title d) \<noteq> None \<Longrightarrow> charts (updateChart rs d s) (title d) \<noteq> None"
  by (cases rule: updateChart_cases [of s d rs])
    (simp_all add: updateChart_create updateChart_reuse)

lemma updateChart_constructed:
  "constructed (updateChart rs d s) =
     (if charts s (title d) = None \<and> rs (title d) \<noteq> None then Suc (constructed s)
      else constructed s)"
  by (cases rule: updateChart_cases [of s d rs])
    (simp_all add: updateChart_skip updateChart_create updateChart_reuse)

text \<open>
  C2. Start from the component as \<^verbatim>\<open>data()\<close> makes it and let any calls \<open>cs\<close> of its
  methods happen. At that point, and at any other, the trace shows at most one Chart
  constructed for the slot \<open>t\<close>. Let then \<^verbatim>\<open>updateChart\<close> be called for \<open>t\<close> with its
  container present (the call \<open>x\<close>), and after it any further calls \<open>ys\<close> of
  \<^verbatim>\<open>updateChart\<close>, in particular calls for \<open>t\<close> with the container present. After
  each of these calls exactly one Chart has been constructed for \<open>t\<close> since the
  component was made, and the slot holds the chart it held after the call \<open>x\<close>.
  A call of \<^verbatim>\<open>updateChart\<close> constructs a Chart only when the registry has no entry
  for the descriptor's slot (and the container is present).
\<close>

theorem create_once:
  assumes "title (snd x) = t" and "fst x t \<noteq> None"
  shows "constructions t (trace (run cs (initial hs))) \<le> 1
       \<and> (\<forall>k\<le>length ys.
            constructions t (trace (updateCharts (x # take k ys) (run cs (initial hs)))) = 1
            \<and> (\<exists>c1 c. charts (updateCharts [x] (run cs (initial hs))) t = Some c1
                  \<and> charts (updateCharts (x # take k ys) (run cs (initial hs))) t = Some c
                  \<and> uid c = uid c1 \<and> item c = item c1 \<and> config_type c = config_type c1))
       \<and> constructed (updateChart rs' d' s') =
           (if charts s' (title d') = None \<and> rs' (title d') \<noteq> None then Suc (constructed s')
            else constructed s')"
proof -
  let ?s0 = "run cs (initial hs)"
  let ?s1 = "updateChart (fst x) (snd x) ?s0"
  have first: "updateCharts [x] ?s0 = ?s1"
    by (simp add: updateCharts_def)
  have a: "constructions t (trace ?s0) \<le> 1"
    by (simp add: reachable_count)
  from assms updateChart_registers [of "fst x" "snd x" ?s0]
  obtain c1 where c1: "charts ?s1 t = Some c1" by auto
  have b: "constructions t (trace (updateCharts (x # take k ys) ?s0)) = 1
      \<and> (\<exists>c1 c. charts (updateCharts [x] ?s0) t = Some c1
            \<and> charts (updateCharts (x # take k ys) ?s0) t = Some c
            \<and> uid c = uid c1 \<and> item c = item c1 \<and> config_type c = config_type c1)" for k
  proof -
    have unfold: "updateCharts (x # take k ys) ?s0 = updateCharts (take k ys) ?s1"
      by (simp add: updateCharts_def)
    from updateCharts_keeps [OF c1, of "take k ys"] obtain c
      where c: "charts (updateCharts (take k ys) ?s1) t = Some c" "same_chart c1 c" by blast
    have "constructions t (trace (updateCharts (x # take k ys) ?s0)) =
        (if charts (updateCharts (x # take k ys) ?s0) t = None then 0 else 1)"
      by (rule updateCharts_count) (rule reachable_count)
    with c unfold have "constructions t (trace (updateCharts (x # take k ys) ?s0)) = 1"
      by simp
    with c c1 first unfold show ?thesis by (auto simp: same_chart_def)
  qed
  from a b show ?thesis by (simp add: updateChart_constructed)
qed


theorem create_once_witness:
  "title (snd (canvas_present, strokeUnitAccessChart snapshot_1)) = ''strokeUnitAccessChart''
   \<and> fst (canvas_present, strokeUnitAccessChart snapshot_1) ''strokeUnitAccessChart'' \<noteq> None
   \<and> constructions ''strokeUnitAccessChart''
        (trace (updateCharts
           [(canvas_present, strokeUnitAccessChart snapshot_1),
            (canvas_present, strokeUnitAccessChart snapshot_2)]
           (run [] (initial [])))) = 1"
proof -
  let ?x = "(canvas_present, strokeUnitAccessChart snapshot_1)"
  let ?ys = "[(canvas_present, strokeUnitAccessChart snapshot_2)]"
  have a: "title (snd ?x) = ''strokeUnitAccessChart''"
    by (simp add: strokeUnitAccessChart_def)
  have b: "fst ?x ''strokeUnitAccessChart'' \<noteq> None"
    by (simp add: canvas_present_def)
  from create_once [where x = ?x and ys = ?ys and cs = "[]" and hs = "[]", OF a b]
  have "\<forall>k\<le>length ?ys.
      constructions ''strokeUnitAccessChart''
        (trace (updateCharts (?x # take k ?ys) (run [] (initial [])))) = 1"
    by blast
  then have "constructions ''strokeUnitAccessChart''
        (trace (updateCharts (?x # take 1 ?ys) (run [] (initial [])))) = 1"
    by (rule allE [of _ 1]) simp
  with a b show ?thesis by simp
qed

subsection \<open>Rendering twice\<close>

lemma updateChart_trace_irrelevant:
  "charts (updateChart rs d (s\<lparr>trace := tr\<rparr>)) = charts (updateChart rs d s)
   \<and> constructed (updateChart rs d (s\<lparr>trace := tr\<rparr>)) = constructed (updateChart rs d s)"
  by (cases rule: updateChart_cases [of s d rs])
    (simp_all add: updateChart_skip updateChart_create updateChart_reuse)

lemma updateChart_other_fields:
  "data (updateChart rs d s) = data s \<and> loading (updateChart rs d s) = loading s
   \<and> hospitals (updateChart rs d s) = hospitals s"
  by (cases rule: updateChart_cases [of s d rs])
    (simp_all add: updateChart_skip updateChart_create updateChart_reuse)

lemma updateChart_twice:
  "charts (updateChart rs d (updateChart rs d s)) = charts (updateChart rs d s)
   \<and> constructed (updateChart rs d (updateChart rs d s)) = constructed (updateChart rs d s)"
proof (cases rule: updateChart_cases [of s d rs])
  case skip
  then show ?thesis by (simp add: updateChart_skip)
next
  case (create el)
  let ?c = "\<lparr>uid = constructed s, item = el, config_type = chartType d,
      chart_data = Some (desc_data d), chart_options = Some (desc_options d)\<rparr>"
  from create have "charts (updateChart rs d s) (title d) = Some ?c"
    by (simp add: updateChart_create)
  from updateChart_reuse [OF this] create show ?thesis
    by (simp add: updateChart_create)
next
  case (reuse c)
  let ?c = "c\<lparr>chart_data := Some (desc_data d), chart_options := Some (desc_options d)\<rparr>"
  from reuse have "charts (updateChart rs d s) (title d) = Some ?c"
    by (simp add: updateChart_reuse)
  from updateChart_reuse [OF this] reuse show ?thesis
    by (simp add: updateChart_reuse)
qed

lemma renderCharts_data: "data (renderCharts rs s) = data s"
  by (cases "data s") (simp_all add: renderCharts_def Let_def updateChart_other_fields)

lemma renderCharts_hospitals: "hospitals (renderCharts rs s) = hospitals s"
  by (cases "data s") (simp_all add: renderCharts_def Let_def updateChart_other_fields)

lemma renderCharts_twice:
  "charts (renderCharts rs (renderCharts rs s)) = charts (renderCharts rs s)
   \<and> constructed (renderCharts rs (renderCharts rs s)) = constructed (renderCharts rs s)"
proof (cases "data s")
  case None
  then show ?thesis by (simp add: renderCharts_def)
next
  case (Some d)
  let ?d = "strokeUnitAccessChart d"
  let ?s1 = "s\<lparr>trace := trace s @ [Render_charts_called]\<rparr>"
  have once: "renderCharts rs s = updateChart rs ?d ?s1"
    using Some by (simp add: renderCharts_def Let_def)
  have "data (updateChart rs ?d ?s1) = Some d"
    using Some by (simp add: updateChart_other_fields)
  then have twice: "renderCharts rs (updateChart rs ?d ?s1) =
      updateChart rs ?d
        ((updateChart rs ?d ?s1)\<lparr>trace := trace (updateChart rs ?d ?s1) @ [Render_charts_called]\<rparr>)"
    by (simp add: renderCharts_def Let_def)
  show ?thesis
    unfolding once twice
    by (simp add: updateChart_trace_irrelevant updateChart_twice)
qed

text \<open>
  C3. Calling \<^verbatim>\<open>renderCharts\<close> a second time, with the same snapshot and the same
  \<^verbatim>\<open>$refs\<close>, leaves the component as the first call left it: the same registry, each
  slot with the same Chart object (identity, canvas, kind), the same data and the same
  options; no Chart is constructed by the second call. (Only the trace grows: the second
  call invokes \<^verbatim>\<open>update()\<close> again.)
\<close>

theorem render_idempotent:
  "charts (renderCharts rs (renderCharts rs s)) = charts (renderCharts rs s)
   \<and> constructed (renderCharts rs (renderCharts rs s)) = constructed (renderCharts rs s)
   \<and> data (renderCharts rs (renderCharts rs s)) = data (renderCharts rs s)
   \<and> loading (renderCharts rs (renderCharts rs s)) = loading (renderCharts rs s)
   \<and> hospitals (renderCharts rs (renderCharts rs s)) = hospitals (renderCharts rs s)"
  by (simp add: renderCharts_twice renderCharts_data renderCharts_loading
      renderCharts_hospitals)

subsection \<open>The initial load\<close>

text \<open>
  C6, as stated, fails: \<^verbatim>\<open>created\<close> calls \<^verbatim>\<open>this.fetchData()\<close> itself. The initial
  load sends the request without any call of the debounced function.
\<close>

theorem initial_load_counterexample:
  "trace (created (initial [])) = [Request_get ''/stroke-chart-data/'' []]
   \<and> Debounced_called \<notin> set (trace (created (initial [])))"
  by (simp add: created_def fetchData_start_def initial_def)

text \<open>
  C6, amended. The initial load calls \<^verbatim>\<open>fetchData\<close> directly: \<^verbatim>\<open>created\<close> sends
  the request and nothing else. A call of the debounced function, when lodash runs the
  wrapped function, sends the request; when it does not, nothing is sent. In either
  case, when the request succeeds, the body becomes \<^verbatim>\<open>this.data\<close> and \<^verbatim>\<open>renderCharts\<close>
  is called next.
\<close>

theorem initial_load_direct:
  "trace (created s) = trace s @ [Request_get ''/stroke-chart-data/'' (hospitals s)]
   \<and> trace (debouncedFetchData True s) =
       trace s @ [Debounced_called, Request_get ''/stroke-chart-data/'' (hospitals s)]
   \<and> trace (debouncedFetchData False s) = trace s @ [Debounced_called]
   \<and> data (fetchData_settle rs (Inr body) s) = body
   \<and> take (Suc (length (trace s))) (trace (fetchData_settle rs (Inr body) s)) =
       trace s @ [Render_charts_called]"
proof -
  have "take (Suc (length (trace s))) (trace (fetchData_settle rs (Inr body) s)) =
      trace s @ [Render_charts_called]"
  proof (cases body)
    case None
    then show ?thesis by (simp add: fetchData_settle_def renderCharts_def)
  next
    case (Some d)
    let ?s1 = "s\<lparr>data := Some d, loading := False, trace := trace s @ [Render_charts_called]\<rparr>"
    have "\<exists>es. trace (updateChart rs (strokeUnitAccessChart d) ?s1) = trace ?s1 @ es"
      by (cases rule: updateChart_cases [of ?s1 "strokeUnitAccessChart d" rs])
        (simp_all add: updateChart_skip updateChart_create updateChart_reuse)
    with Some show ?thesis
      by (auto simp: fetchData_settle_def renderCharts_def Let_def)
  qed
  then show ?thesis
    by (simp add: created_def debouncedFetchData_def fetchData_start_def Let_def
        fetchData_settle_def renderCharts_data)
qed

subsection \<open>The end-to-end scenario\<close>

text \<open>
  C9. With the snapshot \<open>snapshot_1\<close> and the canvas of the slot present, the fetch
  leaves exactly one chart in the registry, under \<^verbatim>\<open>strokeUnitAccessChart\<close>; its data
  has the labels Jan, Feb and one dataset with the series 80, 90; and the summary
  paragraph reads \<^verbatim>\<open>Year to date: 85%\<close>.
\<close>

theorem end_to_end:
  "snapshot_1 =
     \<lparr>months = [''Jan'', ''Feb''], stroke_unit_access = [80, 90],
      stroke_unit_access_percentage = 85\<rparr>
   \<and> charts (renderCharts canvas_present ((initial [])\<lparr>data := Some snapshot_1\<rparr>)) =
       [''strokeUnitAccessChart'' \<mapsto>
          \<lparr>uid = 0, item = 0, config_type = ''line'',
           chart_data = Some (JObj
             [(''labels'', JArr [JStr ''Jan'', JStr ''Feb'']),
              (''datasets'', JArr
                 [JObj [(''label'', JStr ''Percentage''),
                        (''data'', JArr [JNum 80, JNum 90]),
                        (''borderColor'', JStr ''#4472c4''),
                        (''backgroundColor'', JStr ''#a5a5a5''),
                        (''lineTension'', JNum (1 / 10)),
                        (''fill'', JBool False)]])]),
           chart_options = Some percentageLineOptions\<rparr>]
   \<and> charts loaded = charts (renderCharts canvas_present ((initial [])\<lparr>data := Some snapshot_1\<rparr>))
   \<and> constructions ''strokeUnitAccessChart'' (trace loaded) = 1
   \<and> year_to_date loaded = Some (''Year to date: '' @ ''85%'')"
  by (simp add: loaded_def fetchData_def fetchData_settle_def fetchData_start_def
      renderCharts_def updateChart_def assign_and_update_def new_Chart_def Let_def
      initial_def canvas_present_def strokeUnitAccessChart_def snapshot_1_def lineStyles_def
      constructions_def year_to_date_def toString_def decimal.simps digit_def)

end
